theory Spec2Isabelle
  imports Main "HOL-Library.AList"
begin

section \<open>Python values and errors\<close>

text \<open>
  The values that a model attribute or a payload entry can hold. The type parameters stand
  for the two kinds of value that \<open>_serialize_model\<close> converts with a library call:
  \<open>'d\<close> for objects that have an \<open>isoformat\<close> method (datetime, date, time) and \<open>'j\<close> for
  dict and list values (JSON columns). The library functions \<open>isoformat\<close> and \<open>json.dumps\<close>
  themselves are parameters of the functions that call them.
\<close>

datatype ('d, 'j) pyval =
    PNone
  | PInt int
  | PStr string
  | PBool bool
  | PDatetime 'd
  | PContainer 'j

datatype py_error = KeyError | ValueError

section \<open>Node registry of the distributed HA manager\<close>

datatype DatabaseRole = PRIMARY | SECONDARY | STANDBY

datatype HealthStatus = HEALTHY | WARNING | CRITICAL | OFFLINE

text \<open>
  \<open>DatabaseNode\<close> of \<open>distributed_ha_manager.py\<close>, with the fields that the monitored
  operations read or write. Timestamps are abstract integers supplied by the caller.
\<close>

record DatabaseNode =
  name :: string
  role :: DatabaseRole
  priority :: int
  failure_threshold :: int
  last_check :: "int option"
  last_error :: "string option"
  health_status :: HealthStatus
  failure_count :: int

text \<open>
  \<open>self.nodes\<close> is a dict keyed by node name; it is kept as the list of its values in
  insertion order, which is the order the comprehensions of the source iterate in.
\<close>

definition get_node :: "DatabaseNode list \<Rightarrow> string \<Rightarrow> DatabaseNode option" where
  "get_node ns k = find (\<lambda>n. name n = k) ns"

definition update_node ::
  "string \<Rightarrow> (DatabaseNode \<Rightarrow> DatabaseNode) \<Rightarrow> DatabaseNode list \<Rightarrow> DatabaseNode list" where
  "update_node k f ns = map (\<lambda>n. if name n = k then f n else n) ns"

subsection \<open>Health check of one node\<close>

text \<open>
  \<open>_check_node_health\<close>, on the node object. \<open>ok\<close> is the result of
  \<open>_test_node_connection\<close>, which catches every exception itself and returns a bool, and
  \<open>now\<close> is \<open>datetime.now(timezone.utc)\<close>.
\<close>

definition check_node_health_on :: "bool \<Rightarrow> int \<Rightarrow> DatabaseNode \<Rightarrow> DatabaseNode" where
  "check_node_health_on ok now node =
     (let node1 =
        (if ok then
           (let n0 = node\<lparr>failure_count := 0\<rparr>
            in if health_status n0 = OFFLINE then n0\<lparr>health_status := HEALTHY\<rparr> else n0)
         else
           (let n1 = node\<lparr>failure_count := failure_count node + 1\<rparr>
            in if failure_count n1 \<ge> failure_threshold n1 then
                 (if health_status n1 \<noteq> OFFLINE then n1\<lparr>health_status := OFFLINE\<rparr> else n1)
               else if failure_count n1 > 1 then n1\<lparr>health_status := WARNING\<rparr>
               else n1))
      in node1\<lparr>last_check := Some now\<rparr>)"

text \<open>
  \<open>_check_node_health(node_name)\<close> on the registry: \<open>self.nodes[node_name]\<close> raises
  KeyError for an unknown name, before the try block.
\<close>

definition check_node_health ::
  "(string \<Rightarrow> bool) \<Rightarrow> int \<Rightarrow> string \<Rightarrow> DatabaseNode list \<Rightarrow> py_error + DatabaseNode list" where
  "check_node_health conn now node_name ns =
     (case get_node ns node_name of
        None \<Rightarrow> Inl KeyError
      | Some _ \<Rightarrow> Inr (update_node node_name (check_node_health_on (conn node_name) now) ns))"

definition is_node_healthy_on :: "DatabaseNode \<Rightarrow> bool" where
  "is_node_healthy_on node = (health_status node \<in> set [HEALTHY, WARNING])"

subsection \<open>Failover inside the HA manager\<close>

text \<open>
  The replication log element. \<open>operation_id\<close> is the f-string
  \<open>"{int(time.time() * 1000)}_{local_node_name}"\<close>, kept as the pair of its two parts.
  A payload is a Python dict, kept as an association list in insertion order.
\<close>

type_synonym ('d, 'j) payload = "(string \<times> ('d, 'j) pyval) list"

record ('d, 'j) SyncOperation =
  operation_id :: "int \<times> string"
  timestamp :: int
  operation_type :: string
  table_name :: string
  data :: "('d, 'j) payload"
  source_node :: string
  target_nodes :: "string list"
  status :: string

text \<open>
  A table of one node's database: the column names of its model class, its rows in storage
  order and the \<open>last_value\<close> of its \<open>id\<close> sequence \<open><table>_id_seq\<close>. A row maps
  column names to values; a column that is absent from the association list is NULL.
\<close>

record ('d, 'j) table =
  tcolumns :: "string list"
  trows :: "('d, 'j) payload list"
  tseq :: int

text \<open>
  The state of \<open>DistributedHAManager\<close>. \<open>dbs\<close> gives, for a node name and a table name,
  the table that the node's session reads and writes.
\<close>

record ('d, 'j) ha_manager =
  nodes :: "DatabaseNode list"
  local_node_name :: string
  current_primary :: "string option"
  sync_queue :: "('d, 'j) SyncOperation list"
  max_queue_size :: int
  sync_tables :: "string list"
  full_sync_interval :: int
  last_full_sync :: int
  dbs :: "string \<Rightarrow> string \<Rightarrow> ('d, 'j) table"

definition is_node_healthy :: "('d, 'j) ha_manager \<Rightarrow> string \<Rightarrow> py_error + bool" where
  "is_node_healthy m node_name =
     (case get_node (nodes m) node_name of
        None \<Rightarrow> Inl KeyError
      | Some node \<Rightarrow> Inr (is_node_healthy_on node))"

text \<open>
  \<open>_execute_failover\<close>. The whole body is inside a try block that returns False on any
  exception, so a KeyError from \<open>self.nodes[target_node]\<close> or from
  \<open>_notify_role_change\<close> (which starts with \<open>self.nodes[node_name]\<close>) leaves the
  assignments made before it in place. Notifying a remote node has no effect on this
  process, and for the local node it repeats the role assignment already made.
\<close>

definition execute_failover ::
  "('d, 'j) ha_manager \<Rightarrow> string \<Rightarrow> string \<Rightarrow> bool \<times> ('d, 'j) ha_manager" where
  "execute_failover m failed_node target_node =
     (let m1 = (if get_node (nodes m) failed_node \<noteq> None
                then m\<lparr>nodes := update_node failed_node (\<lambda>n. n\<lparr>role := SECONDARY\<rparr>) (nodes m)\<rparr>
                else m)
      in if get_node (nodes m1) target_node = None then (False, m1)
         else
           (let m2 = m1\<lparr>nodes := update_node target_node (\<lambda>n. n\<lparr>role := PRIMARY\<rparr>) (nodes m1),
                          current_primary := Some target_node\<rparr>
            in if get_node (nodes m2) failed_node = None then (False, m2) else (True, m2)))"

text \<open>
  The candidates of \<open>_attempt_failover\<close>: the list comprehension over
  \<open>self.nodes.items()\<close>.
\<close>

definition available_nodes :: "('d, 'j) ha_manager \<Rightarrow> string \<Rightarrow> DatabaseNode list" where
  "available_nodes m failed_primary =
     filter (\<lambda>node. name node \<noteq> failed_primary \<and> is_node_healthy_on node \<and>
                     role node \<in> set [SECONDARY, STANDBY]) (nodes m)"

text \<open>
  \<open>_attempt_failover\<close>. The result is None where the source returns without a value,
  and the bool it returns otherwise. \<open>list.sort\<close> is stable, as \<open>sort_key\<close> is.
\<close>

definition attempt_failover ::
  "('d, 'j) ha_manager \<Rightarrow> bool option \<times> ('d, 'j) ha_manager" where
  "attempt_failover m =
     (case current_primary m of
        None \<Rightarrow> (None, m)
      | Some failed_primary \<Rightarrow>
          (case sort_key priority (available_nodes m failed_primary) of
             [] \<Rightarrow> (Some False, m)
           | target # _ \<Rightarrow>
               (let (ok, m') = execute_failover m failed_primary (name target)
                in (Some ok, m'))))"

subsection \<open>The replication log\<close>

text \<open>
  \<open>add_sync_operation\<close>: \<open>now_ms\<close> is \<open>int(time.time() * 1000)\<close> and \<open>now\<close> is
  \<open>datetime.now(timezone.utc)\<close>. The lock only serialises the append.
\<close>

definition add_sync_operation ::
  "int \<Rightarrow> int \<Rightarrow> string \<Rightarrow> string \<Rightarrow> ('d, 'j) payload \<Rightarrow> ('d, 'j) ha_manager \<Rightarrow> ('d, 'j) ha_manager" where
  "add_sync_operation now_ms now op_type tname payload m =
     (let operation = \<lparr>operation_id = (now_ms, local_node_name m),
                        timestamp = now,
                        operation_type = op_type,
                        table_name = tname,
                        data = payload,
                        source_node = local_node_name m,
                        target_nodes = map name (filter (\<lambda>node. name node \<noteq> local_node_name m \<and>
                                                                role node = SECONDARY) (nodes m)),
                        status = ''pending''\<rparr>
      in m\<lparr>sync_queue := sync_queue m @ [operation]\<rparr>)"

text \<open>A run of enqueues, one per payload, as a producer issues them.\<close>

fun add_sync_operations ::
  "(int \<times> int \<times> string \<times> string \<times> ('d, 'j) payload) list \<Rightarrow> ('d, 'j) ha_manager \<Rightarrow> ('d, 'j) ha_manager" where
  "add_sync_operations [] m = m"
| "add_sync_operations ((now_ms, now, op_type, tname, payload) # rest) m =
     add_sync_operations rest (add_sync_operation now_ms now op_type tname payload m)"

section \<open>The failover controller (\<open>failover_manager.py\<close>)\<close>

datatype FailoverStatus = NORMAL | DETECTING | SWITCHING | FAILED | COMPLETED

text \<open>\<open>DatabaseConfig\<close> of the backup manager; \<open>db_type\<close> is 'primary' or 'secondary'.\<close>

record DatabaseConfig =
  db_name :: string
  db_type :: string
  db_priority :: int
  is_active :: bool

record FailoverEvent =
  ev_timestamp :: int
  source_db :: string
  target_db :: string
  reason :: string
  ev_status :: FailoverStatus
  duration :: int
  error_message :: "string option"

text \<open>
  \<open>DatabaseFailoverManager\<close> together with the two attributes of its backup manager that
  it reads and writes (\<open>databases\<close>, a dict kept as the list of its values, and
  \<open>current_primary\<close>). The three optional callbacks are None, as the constructor leaves
  them.
\<close>

record failover_manager =
  databases :: "DatabaseConfig list"
  bm_current_primary :: "string option"
  auto_failover_enabled :: bool
  detection_threshold :: int
  current_status :: FailoverStatus
  failure_counts :: "string \<rightharpoonup> int"
  failover_history :: "FailoverEvent list"
  max_history_size :: nat

text \<open>
  What one pass of the monitor observes of the outside world: \<open>conn\<close> is the result of
  \<open>backup_manager._test_database_connection\<close> (False also for a database without an
  engine), \<open>tables_ok\<close> says whether the table check of \<open>_validate_target_database\<close>
  ends with every required table present, \<open>clock\<close> is the current time and \<open>elapsed\<close> the
  measured duration of a failover.
\<close>

record probe_env =
  conn :: "string \<Rightarrow> bool"
  tables_ok :: "string \<Rightarrow> bool"
  clock :: int
  elapsed :: int

definition get_database :: "DatabaseConfig list \<Rightarrow> string \<Rightarrow> DatabaseConfig option" where
  "get_database ds k = find (\<lambda>c. db_name c = k) ds"

text \<open>
  \<open>_record_failover_event\<close>: append, then keep the last \<open>max_history_size\<close> events
  (the slice \<open>h[-n:]\<close> is the whole list for \<open>n = 0\<close>).
\<close>

definition record_failover_event :: "FailoverEvent \<Rightarrow> failover_manager \<Rightarrow> failover_manager" where
  "record_failover_event ev m =
     (let h = failover_history m @ [ev]
      in m\<lparr>failover_history :=
             (if length h > max_history_size m \<and> max_history_size m \<noteq> 0
              then drop (length h - max_history_size m) h else h)\<rparr>)"

text \<open>\<open>_select_failover_target\<close>.\<close>

definition available_dbs :: "failover_manager \<Rightarrow> probe_env \<Rightarrow> string \<Rightarrow> DatabaseConfig list" where
  "available_dbs m env failed_db =
     filter (\<lambda>config. db_name config \<noteq> failed_db \<and> is_active config \<and> conn env (db_name config))
            (databases m)"

definition select_failover_target :: "failover_manager \<Rightarrow> probe_env \<Rightarrow> string \<Rightarrow> string option" where
  "select_failover_target m env failed_db =
     (case sort_key db_priority (available_dbs m env failed_db) of
        [] \<Rightarrow> None
      | config # _ \<Rightarrow> Some (db_name config))"

definition validate_target_database :: "failover_manager \<Rightarrow> probe_env \<Rightarrow> string \<Rightarrow> bool" where
  "validate_target_database m env target =
     (if get_database (databases m) target = None then False
      else if \<not> conn env target then False
      else tables_ok env target)"

text \<open>\<open>backup_manager.failover_to_database\<close>.\<close>

definition failover_to_database :: "failover_manager \<Rightarrow> probe_env \<Rightarrow> string \<Rightarrow> bool \<times> failover_manager" where
  "failover_to_database m env target =
     (if get_database (databases m) target = None then (False, m)
      else if \<not> conn env target then (False, m)
      else
        (let old_primary = bm_current_primary m;
             ds1 = (case old_primary of
                      None \<Rightarrow> databases m
                    | Some old \<Rightarrow> map (\<lambda>c. if db_name c = old then c\<lparr>db_type := ''secondary''\<rparr> else c)
                                      (databases m));
             ds2 = map (\<lambda>c. if db_name c = target then c\<lparr>db_type := ''primary''\<rparr> else c) ds1
         in (True, m\<lparr>bm_current_primary := Some target, databases := ds2\<rparr>)))"

text \<open>
  \<open>execute_failover\<close>. The best-effort data sync between the two databases does not
  touch the controller's state and cannot abort the switch, so it leaves no trace here.
  The error texts of the source are Chinese; they are rendered in English.
\<close>

definition fm_execute_failover ::
  "failover_manager \<Rightarrow> probe_env \<Rightarrow> string \<Rightarrow> string \<Rightarrow> string \<Rightarrow> bool \<times> failover_manager" where
  "fm_execute_failover m env source target rsn =
     (let m1 = m\<lparr>current_status := DETECTING\<rparr>
      in if \<not> validate_target_database m1 env target then
           (let m2 = m1\<lparr>current_status := FAILED\<rparr>;
                m3 = record_failover_event
                       \<lparr>ev_timestamp = clock env, source_db = source, target_db = target, reason = rsn,
                        ev_status = FAILED, duration = elapsed env,
                        error_message = Some ''target database validation failed''\<rparr> m2
            in (False, m3\<lparr>current_status := NORMAL\<rparr>))
         else
           (let m2 = m1\<lparr>current_status := SWITCHING\<rparr>;
                (success, m3) = failover_to_database m2 env target
            in if success then
                 (let m4 = m3\<lparr>current_status := COMPLETED\<rparr>;
                      m5 = record_failover_event
                             \<lparr>ev_timestamp = clock env, source_db = source, target_db = target,
                              reason = rsn, ev_status = COMPLETED, duration = elapsed env,
                              error_message = None\<rparr> m4;
                      m6 = m5\<lparr>failure_counts := Map.empty\<rparr>
                  in (True, m6\<lparr>current_status := NORMAL\<rparr>))
               else
                 (let m4 = m3\<lparr>current_status := FAILED\<rparr>;
                      m5 = record_failover_event
                             \<lparr>ev_timestamp = clock env, source_db = source, target_db = target,
                              reason = rsn, ev_status = FAILED, duration = elapsed env,
                              error_message = Some ''database switch failed''\<rparr> m4
                  in (False, m5\<lparr>current_status := NORMAL\<rparr>))))"

text \<open>\<open>_trigger_automatic_failover\<close>.\<close>

definition trigger_automatic_failover ::
  "failover_manager \<Rightarrow> probe_env \<Rightarrow> string \<Rightarrow> string \<Rightarrow> failover_manager" where
  "trigger_automatic_failover m env failed_db rsn =
     (if current_status m \<noteq> NORMAL then m
      else case select_failover_target m env failed_db of
             Some target \<Rightarrow> snd (fm_execute_failover m env failed_db target rsn)
           | None \<Rightarrow>
               record_failover_event
                 \<lparr>ev_timestamp = clock env, source_db = failed_db, target_db = [], reason = rsn,
                  ev_status = FAILED, duration = 0,
                  error_message = Some ''no target database available''\<rparr> m)"




section \<open>Serialisation of model instances\<close>

text \<open>
  An ORM model instance: the table name of its class when it has one
  (\<open>hasattr(instance, '__tablename__')\<close>), the names of \<open>__table__.columns\<close> in
  order, and its attribute values.
\<close>

record ('d, 'j) model_instance =
  tablename :: "string option"
  columns :: "string list"
  attrs :: "('d, 'j) payload"

text \<open>\<open>getattr(model_instance, column.name, None)\<close>.\<close>

definition getattr :: "('d, 'j) payload \<Rightarrow> string \<Rightarrow> ('d, 'j) pyval" where
  "getattr kvs c = (case map_of kvs c of Some v \<Rightarrow> v | None \<Rightarrow> PNone)"

text \<open>
  The three branches inside \<open>_serialize_model\<close>: a value with an \<open>isoformat\<close> method,
  a dict or list, anything else. \<open>isoformat\<close> is \<open>value.isoformat()\<close> and \<open>json_dumps\<close> is
  \<open>json.dumps(value)\<close>.
\<close>

definition serialize_value ::
  "('d \<Rightarrow> string) \<Rightarrow> ('j \<Rightarrow> string) \<Rightarrow> ('d, 'j) pyval \<Rightarrow> ('d, 'j) pyval" where
  "serialize_value isoformat json_dumps v =
     (case v of
        PDatetime d \<Rightarrow> PStr (isoformat d)
      | PContainer j \<Rightarrow> PStr (json_dumps j)
      | _ \<Rightarrow> v)"

text \<open>
  \<open>_serialize_model\<close>: the loop over the columns, assigning \<open>data[column.name]\<close> for
  every value that is not None. Assignment to a dict keeps the position of a key that is
  already there, as \<open>AList.update\<close> does.
\<close>

definition serialize_model ::
  "('d \<Rightarrow> string) \<Rightarrow> ('j \<Rightarrow> string) \<Rightarrow> ('d, 'j) model_instance \<Rightarrow> ('d, 'j) payload" where
  "serialize_model isoformat json_dumps inst =
     fold (\<lambda>c data. let v = getattr (attrs inst) c
                     in if v \<noteq> PNone then AList.update c (serialize_value isoformat json_dumps v) data else data)
          (columns inst) []"

section \<open>Tables, sequences and the SQL statements of the sync paths\<close>

text \<open>
  The primary key of a row. Every stored row has an integer \<open>id\<close> (the column is the
  primary key); 0 is returned for a row without one only to make the function total.
\<close>

definition row_id :: "('d, 'j) payload \<Rightarrow> int" where
  "row_id r = (case map_of r ''id'' of Some (PInt i) \<Rightarrow> i | _ \<Rightarrow> 0)"

text \<open>\<open>SELECT COALESCE(MAX(id), 0) FROM table\<close>.\<close>

definition coalesce_max_id :: "('d, 'j) payload list \<Rightarrow> int" where
  "coalesce_max_id rs = (case rs of [] \<Rightarrow> 0 | r # rest \<Rightarrow> fold max (map row_id rest) (row_id r))"

text \<open>
  \<open>INSERT INTO t (columns) VALUES (...) ON CONFLICT (id) DO UPDATE SET c = EXCLUDED.c\<close>
  for every payload column \<open>c\<close> other than \<open>id\<close> (\<open>DO NOTHING\<close> when there is none).
  With an integer \<open>id\<close> in the payload the row with that id is updated in place, or the
  payload is stored as a new row. Without one the id comes from the sequence
  (\<open>nextval\<close> advances it even when the insert then fails on an id that is taken).
  Constraints other than the primary key are outside the model.
\<close>

definition set_columns :: "('d, 'j) payload \<Rightarrow> ('d, 'j) payload \<Rightarrow> ('d, 'j) payload" where
  "set_columns record_data r =
     fold (\<lambda>(c, v) r'. AList.update c v r') (filter (\<lambda>(c, v). c \<noteq> ''id'') record_data) r"

definition insert_on_conflict_update :: "('d, 'j) payload \<Rightarrow> ('d, 'j) table \<Rightarrow> ('d, 'j) table" where
  "insert_on_conflict_update record_data t =
     (case map_of record_data ''id'' of
        Some (PInt i) \<Rightarrow>
          (if i \<in> set (map row_id (trows t))
           then t\<lparr>trows := map (\<lambda>r. if row_id r = i then set_columns record_data r else r) (trows t)\<rparr>
           else t\<lparr>trows := trows t @ [record_data]\<rparr>)
      | _ \<Rightarrow>
          (let i = tseq t + 1
           in if i \<in> set (map row_id (trows t)) then t\<lparr>tseq := i\<rparr>
              else t\<lparr>trows := trows t @ [AList.update ''id'' (PInt i) record_data], tseq := i\<rparr>))"

text \<open>
  \<open>_update_sequence_after_sync\<close>: \<open>setval\<close> of the sequence to \<open>max_id + 1\<close> when
  \<open>max_id > 0\<close>.
\<close>

definition update_sequence_after_sync :: "('d, 'j) table \<Rightarrow> ('d, 'j) table" where
  "update_sequence_after_sync t =
     (let max_id = coalesce_max_id (trows t)
      in if max_id > 0 then t\<lparr>tseq := max_id + 1\<rparr> else t)"

text \<open>\<open>_sync_sequence_for_insert\<close>, for an integer \<open>record_id\<close>.\<close>

definition sync_sequence_for_insert :: "('d, 'j) table \<Rightarrow> int \<Rightarrow> ('d, 'j) table" where
  "sync_sequence_for_insert t record_id =
     (let current_sequence = tseq t
      in if record_id \<ge> current_sequence then t\<lparr>tseq := record_id + 1\<rparr> else t)"

text \<open>
  \<open>_execute_insert_operation\<close> on the table of the receiving node: the upsert, then the
  sequence update when the payload has an \<open>id\<close>.
\<close>

definition execute_insert_operation :: "('d, 'j) payload \<Rightarrow> ('d, 'j) table \<Rightarrow> ('d, 'j) table" where
  "execute_insert_operation record_data t =
     (let t1 = insert_on_conflict_update record_data t
      in case map_of record_data ''id'' of
           Some (PInt i) \<Rightarrow> sync_sequence_for_insert t1 i
         | _ \<Rightarrow> t1)"

text \<open>
  \<open>_execute_update_operation\<close> on one stored row: \<open>UPDATE t SET c = v, ... WHERE id = record_id\<close>
  for the payload columns other than \<open>id\<close>. The result is None where the source
  returns False (no \<open>id\<close> in the payload).
\<close>

definition execute_update_operation ::
  "('d, 'j) payload \<Rightarrow> ('d, 'j) payload list \<Rightarrow> ('d, 'j) payload list option" where
  "execute_update_operation record_data rs =
     (case map_of record_data ''id'' of
        None \<Rightarrow> None
      | Some record_id \<Rightarrow>
          (let update_data = filter (\<lambda>(k, v). k \<noteq> ''id'') record_data
           in if update_data = [] then Some rs
              else Some (map (\<lambda>r. if getattr r ''id'' = record_id
                                   then fold (\<lambda>(c, v) r'. AList.update c v r') update_data r
                                   else r) rs)))"

text \<open>
  The ORM classes exist for four tables; every other table name takes the
  \<open>else\<close> branch ("unsupported table") of the queries below.
\<close>

definition supported_tables :: "string list" where
  "supported_tables = [''images'', ''crawl_sessions'', ''categories'', ''tags'']"

text \<open>A stored row loaded as an instance of the table's model class.\<close>

definition load_instance :: "string \<Rightarrow> string list \<Rightarrow> ('d, 'j) payload \<Rightarrow> ('d, 'j) model_instance" where
  "load_instance tname cols r = \<lparr>tablename = Some tname, columns = cols, attrs = r\<rparr>"

text \<open>
  \<open>query(Model).filter(Model.id > min_id).order_by(Model.id).limit(limit).all()\<close>, the
  query of \<open>_get_records_above_id\<close> and of \<open>_sync_table_missing_records\<close>.
\<close>

definition records_above_id :: "('d, 'j) payload list \<Rightarrow> int \<Rightarrow> int \<Rightarrow> ('d, 'j) payload list" where
  "records_above_id rs min_id limit = take (nat limit) (sort_key row_id (filter (\<lambda>r. row_id r > min_id) rs))"

definition get_records_above_id ::
  "string \<Rightarrow> ('d, 'j) payload list \<Rightarrow> int \<Rightarrow> int \<Rightarrow> ('d, 'j) payload list" where
  "get_records_above_id tname rs min_id limit =
     (if tname \<in> set supported_tables then records_above_id rs min_id limit else [])"

text \<open>\<open>_get_record_by_id\<close>: \<open>.filter(Model.id == record_id).first()\<close>.\<close>

definition get_record_by_id ::
  "string \<Rightarrow> ('d, 'j) payload list \<Rightarrow> ('d, 'j) pyval \<Rightarrow> ('d, 'j) payload option" where
  "get_record_by_id tname rs record_id =
     (if tname \<in> set supported_tables then find (\<lambda>r. getattr r ''id'' = record_id) rs else None)"

text \<open>\<open>SELECT id, updated_at FROM table ORDER BY id DESC LIMIT n\<close>.\<close>

definition latest_records ::
  "nat \<Rightarrow> ('d, 'j) payload list \<Rightarrow> (('d, 'j) pyval \<times> ('d, 'j) pyval) list" where
  "latest_records n rs =
     map (\<lambda>r. (getattr r ''id'', getattr r ''updated_at'')) (take n (rev (sort_key row_id rs)))"


section \<open>The auto-sync session\<close>

text \<open>
  An entry of \<open>AutoSyncSession._pending_operations\<close>: the dict with the keys
  \<open>type\<close>, \<open>table\<close> and \<open>instance\<close>.
\<close>

record ('d, 'j) pending_operation =
  p_type :: string
  p_table :: string
  p_instance :: "('d, 'j) model_instance"

text \<open>
  The wrapper and the part of the wrapped session that \<open>add\<close>, \<open>delete\<close>,
  \<open>commit\<close> and \<open>rollback\<close> change: the instances waiting to be inserted and to be
  deleted in the open transaction.
\<close>

record ('d, 'j) auto_sync_session =
  pending_operations :: "('d, 'j) pending_operation list"
  session_new :: "('d, 'j) model_instance list"
  session_deleted :: "('d, 'j) model_instance list"

definition session_add ::
  "('d, 'j) model_instance \<Rightarrow> ('d, 'j) auto_sync_session \<Rightarrow> ('d, 'j) auto_sync_session" where
  "session_add instance s =
     (let s1 = s\<lparr>session_new := session_new s @ [instance]\<rparr>
      in case tablename instance of
           Some tname \<Rightarrow> s1\<lparr>pending_operations := pending_operations s1 @
                                  [\<lparr>p_type = ''INSERT'', p_table = tname, p_instance = instance\<rparr>]\<rparr>
         | None \<Rightarrow> s1)"

text \<open>\<open>hasattr(instance, 'id')\<close> holds for an instance of a class with an \<open>id\<close> column.\<close>

definition session_delete ::
  "('d, 'j) model_instance \<Rightarrow> ('d, 'j) auto_sync_session \<Rightarrow> ('d, 'j) auto_sync_session" where
  "session_delete instance s =
     (let s1 = s\<lparr>session_deleted := session_deleted s @ [instance]\<rparr>
      in case tablename instance of
           Some tname \<Rightarrow>
             (if ''id'' \<in> set (columns instance)
              then s1\<lparr>pending_operations := pending_operations s1 @
                         [\<lparr>p_type = ''DELETE'', p_table = tname, p_instance = instance\<rparr>]\<rparr>
              else s1)
         | None \<Rightarrow> s1)"

text \<open>
  \<open>rollback\<close> is not defined by the wrapper; \<open>__getattr__\<close> passes it to the wrapped
  session.
\<close>

definition session_rollback :: "('d, 'j) auto_sync_session \<Rightarrow> ('d, 'j) auto_sync_session" where
  "session_rollback s = s\<lparr>session_new := [], session_deleted := []\<rparr>"

text \<open>
  The body of the loop of \<open>_process_pending_sync_operations\<close>, with
  \<open>_sync_insert_operation\<close>, \<open>_sync_delete_operation\<close> and
  \<open>_sync_update_operation\<close> in place. \<open>t_ms\<close> and \<open>t\<close> are the clock readings of
  \<open>add_sync_operation\<close>.
\<close>

definition process_pending_operation ::
  "('d \<Rightarrow> string) \<Rightarrow> ('j \<Rightarrow> string) \<Rightarrow> int \<Rightarrow> int \<Rightarrow> ('d, 'j) pending_operation
     \<Rightarrow> ('d, 'j) ha_manager \<Rightarrow> ('d, 'j) ha_manager" where
  "process_pending_operation isoformat json_dumps t_ms t operation m =
     (if p_type operation = ''INSERT'' then
        add_sync_operation t_ms t ''INSERT'' (p_table operation)
          (serialize_model isoformat json_dumps (p_instance operation)) m
      else if p_type operation = ''DELETE'' then
        (if ''id'' \<in> set (columns (p_instance operation))
         then add_sync_operation t_ms t ''DELETE'' (p_table operation)
                [(''id'', getattr (attrs (p_instance operation)) ''id'')] m
         else m)
      else if p_type operation = ''UPDATE'' then
        add_sync_operation t_ms t ''UPDATE'' (p_table operation)
          (serialize_model isoformat json_dumps (p_instance operation)) m
      else m)"

text \<open>
  \<open>AutoSyncSession.commit\<close>. \<open>commit_error\<close> is the exception that
  \<open>self.session.commit()\<close> raises, if any. The first component of the result is the
  exception that \<open>commit\<close> raises in turn.
\<close>

definition session_commit ::
  "('d \<Rightarrow> string) \<Rightarrow> ('j \<Rightarrow> string) \<Rightarrow> int \<Rightarrow> int \<Rightarrow> 'e option
     \<Rightarrow> ('d, 'j) auto_sync_session \<times> ('d, 'j) ha_manager
     \<Rightarrow> 'e option \<times> ('d, 'j) auto_sync_session \<times> ('d, 'j) ha_manager" where
  "session_commit isoformat json_dumps t_ms t commit_error sm =
     (let (s, m) = sm
      in case commit_error of
           None \<Rightarrow>
             (let s1 = s\<lparr>session_new := [], session_deleted := []\<rparr>;
                  m1 = fold (process_pending_operation isoformat json_dumps t_ms t) (pending_operations s1) m
              in (None, s1\<lparr>pending_operations := []\<rparr>, m1))
         | Some e \<Rightarrow> (Some e, session_rollback s, m))"

section \<open>Full reconciliation\<close>

text \<open>
  The write of one table of one node. Sessions are opened per call and committed before
  they are closed, so every function below passes the whole store on.
\<close>

definition put_table ::
  "string \<Rightarrow> string \<Rightarrow> ('d, 'j) table \<Rightarrow> ('d, 'j) ha_manager \<Rightarrow> ('d, 'j) ha_manager" where
  "put_table node tname t m = m\<lparr>dbs := (dbs m)(node := (dbs m node)(tname := t))\<rparr>"

text \<open>
  The body shared by \<open>_sync_table_missing_records\<close> and
  \<open>_sync_table_missing_records_reverse\<close> once the records are selected: every record is
  serialised and upserted into the target table, the transaction is committed and, when at
  least one record was synced, the target's sequence is updated. The first component is
  \<open>synced_count\<close>.
\<close>

definition copy_records ::
  "('d \<Rightarrow> string) \<Rightarrow> ('j \<Rightarrow> string) \<Rightarrow> string \<Rightarrow> string list \<Rightarrow> ('d, 'j) payload list
     \<Rightarrow> ('d, 'j) table \<Rightarrow> int \<times> ('d, 'j) table" where
  "copy_records isoformat json_dumps tname cols missing_records target =
     (let t1 = fold (\<lambda>record t. insert_on_conflict_update
                                   (serialize_model isoformat json_dumps (load_instance tname cols record)) t)
                    missing_records target;
          synced_count = int (length missing_records)
      in (synced_count, if synced_count > 0 then update_sequence_after_sync t1 else t1))"

text \<open>
  \<open>_sync_table_missing_records\<close>: from the current primary to \<open>target_node\<close>. Without
  a current primary the session lookup raises and the function returns 0.
\<close>

definition sync_table_missing_records ::
  "('d \<Rightarrow> string) \<Rightarrow> ('j \<Rightarrow> string) \<Rightarrow> ('d, 'j) ha_manager \<Rightarrow> string \<Rightarrow> string \<Rightarrow> int
     \<Rightarrow> int \<times> ('d, 'j) ha_manager" where
  "sync_table_missing_records isoformat json_dumps m tname target_node missing_count =
     (case current_primary m of
        None \<Rightarrow> (0, m)
      | Some primary \<Rightarrow>
          (let max_id = coalesce_max_id (trows (dbs m target_node tname))
           in if tname \<notin> set supported_tables then (0, m)
              else
                (let missing_records = records_above_id (trows (dbs m primary tname)) max_id missing_count
                 in if missing_records = [] then (0, m)
                    else
                      (let (synced_count, t') =
                             copy_records isoformat json_dumps tname (tcolumns (dbs m primary tname))
                               missing_records (dbs m target_node tname)
                       in (synced_count, put_table target_node tname t' m)))))"

text \<open>\<open>_sync_table_missing_records_reverse\<close>: from \<open>secondary_node\<close> to the current primary.\<close>

definition sync_table_missing_records_reverse ::
  "('d \<Rightarrow> string) \<Rightarrow> ('j \<Rightarrow> string) \<Rightarrow> ('d, 'j) ha_manager \<Rightarrow> string \<Rightarrow> string \<Rightarrow> int
     \<Rightarrow> int \<times> ('d, 'j) ha_manager" where
  "sync_table_missing_records_reverse isoformat json_dumps m tname secondary_node missing_count =
     (case current_primary m of
        None \<Rightarrow> (0, m)
      | Some primary \<Rightarrow>
          (let max_id = coalesce_max_id (trows (dbs m primary tname));
               missing_records = get_records_above_id tname (trows (dbs m secondary_node tname)) max_id missing_count
           in if missing_records = [] then (0, m)
              else
                (let (synced_count, t') =
                       copy_records isoformat json_dumps tname (tcolumns (dbs m secondary_node tname))
                         missing_records (dbs m primary tname)
                 in (synced_count, put_table primary tname t' m))))"

text \<open>
  \<open>_sync_single_record\<close>: the primary's record with this id is serialised and upserted
  into the target, and committed. False when the record is not found.
\<close>

definition sync_single_record ::
  "('d \<Rightarrow> string) \<Rightarrow> ('j \<Rightarrow> string) \<Rightarrow> ('d, 'j) ha_manager \<Rightarrow> string \<Rightarrow> ('d, 'j) pyval \<Rightarrow> string
     \<Rightarrow> bool \<times> ('d, 'j) ha_manager" where
  "sync_single_record isoformat json_dumps m tname record_id target_node =
     (case current_primary m of
        None \<Rightarrow> (False, m)
      | Some primary \<Rightarrow>
          (case get_record_by_id tname (trows (dbs m primary tname)) record_id of
             None \<Rightarrow> (False, m)
           | Some record \<Rightarrow>
               (let record_data = serialize_model isoformat json_dumps
                                    (load_instance tname (tcolumns (dbs m primary tname)) record)
                in (True, put_table target_node tname
                            (insert_on_conflict_update record_data (dbs m target_node tname)) m))))"

text \<open>
  The ids that \<open>_sync_table_content_differences\<close> collects: those of the primary's ten
  newest \<open>(id, updated_at)\<close> pairs that are not among the target's ten newest pairs.
\<close>

definition different_ids ::
  "('d, 'j) payload list \<Rightarrow> ('d, 'j) payload list \<Rightarrow> ('d, 'j) pyval list" where
  "different_ids primary_rows target_rows =
     map fst (filter (\<lambda>record. record \<notin> set (latest_records 10 target_rows))
                     (latest_records 10 primary_rows))"

text \<open>The loop over \<open>different_ids\<close>, counting the records that were synced.\<close>

fun sync_records ::
  "('d \<Rightarrow> string) \<Rightarrow> ('j \<Rightarrow> string) \<Rightarrow> string \<Rightarrow> string \<Rightarrow> ('d, 'j) pyval list
     \<Rightarrow> int \<times> ('d, 'j) ha_manager \<Rightarrow> int \<times> ('d, 'j) ha_manager" where
  "sync_records isoformat json_dumps tname target_node [] acc = acc"
| "sync_records isoformat json_dumps tname target_node (record_id # ids) (synced_count, m) =
     (let (ok, m') = sync_single_record isoformat json_dumps m tname record_id target_node
      in sync_records isoformat json_dumps tname target_node ids
           (if ok then synced_count + 1 else synced_count, m'))"

definition sync_table_content_differences ::
  "('d \<Rightarrow> string) \<Rightarrow> ('j \<Rightarrow> string) \<Rightarrow> ('d, 'j) ha_manager \<Rightarrow> string \<Rightarrow> string
     \<Rightarrow> int \<times> ('d, 'j) ha_manager" where
  "sync_table_content_differences isoformat json_dumps m tname target_node =
     (case current_primary m of
        None \<Rightarrow> (0, m)
      | Some primary \<Rightarrow>
          (let ids = different_ids (trows (dbs m primary tname)) (trows (dbs m target_node tname))
           in if ids \<noteq> [] then sync_records isoformat json_dumps tname target_node ids (0, m)
              else (0, m)))"

text \<open>
  The body of the loop of \<open>_sync_bidirectional_data\<close> for one table, and the loop. The
  statistics are the dicts that \<open>_get_database_stats\<close> returned.
\<close>

definition sync_bidirectional_table ::
  "('d \<Rightarrow> string) \<Rightarrow> ('j \<Rightarrow> string) \<Rightarrow> string \<Rightarrow> (string \<rightharpoonup> int) \<Rightarrow> (string \<rightharpoonup> int) \<Rightarrow> string
     \<Rightarrow> int \<times> ('d, 'j) ha_manager \<Rightarrow> int \<times> ('d, 'j) ha_manager" where
  "sync_bidirectional_table isoformat json_dumps target_node primary_stats secondary_stats tname acc =
     (case (primary_stats tname, secondary_stats tname) of
        (Some primary_count, Some secondary_count) \<Rightarrow>
          (let (total_synced, m) = acc
           in if primary_count > secondary_count then
                (let (synced_count, m') =
                       sync_table_missing_records isoformat json_dumps m tname target_node
                         (primary_count - secondary_count)
                 in (total_synced + synced_count, m'))
              else if secondary_count > primary_count then
                (let (synced_count, m') =
                       sync_table_missing_records_reverse isoformat json_dumps m tname target_node
                         (secondary_count - primary_count)
                 in (total_synced + synced_count, m'))
              else if primary_count > 0 then
                (let (synced_count, m') =
                       sync_table_content_differences isoformat json_dumps m tname target_node
                 in (total_synced + synced_count, m'))
              else acc)
      | _ \<Rightarrow> acc)"

definition sync_bidirectional_data ::
  "('d \<Rightarrow> string) \<Rightarrow> ('j \<Rightarrow> string) \<Rightarrow> ('d, 'j) ha_manager \<Rightarrow> string
     \<Rightarrow> (string \<rightharpoonup> int) \<Rightarrow> (string \<rightharpoonup> int) \<Rightarrow> int \<times> ('d, 'j) ha_manager" where
  "sync_bidirectional_data isoformat json_dumps m target_node primary_stats secondary_stats =
     fold (sync_bidirectional_table isoformat json_dumps target_node primary_stats secondary_stats)
          (sync_tables m) (0, m)"

text \<open>\<open>_get_database_stats\<close>: the row count of every table of \<open>sync_tables\<close>.\<close>

definition get_database_stats :: "('d, 'j) ha_manager \<Rightarrow> string \<Rightarrow> (string \<rightharpoonup> int)" where
  "get_database_stats m node =
     map_of (map (\<lambda>tname. (tname, int (length (trows (dbs m node tname))))) (sync_tables m))"

text \<open>
  \<open>_deep_check_data_consistency\<close>. Only the emptiness of its result is used, so the
  messages are reduced to their kind and table.
\<close>

datatype inconsistency = CountMismatch string | LatestMismatch string | IdRangeMismatch string

definition id_range :: "('d, 'j) payload list \<Rightarrow> (int \<times> int) option" where
  "id_range rs = (case rs of [] \<Rightarrow> None
                  | r # rest \<Rightarrow> Some (fold min (map row_id rest) (row_id r), fold max (map row_id rest) (row_id r)))"

definition check_table_consistency ::
  "('d, 'j) ha_manager \<Rightarrow> string \<Rightarrow> string \<Rightarrow> (string \<rightharpoonup> int) \<Rightarrow> (string \<rightharpoonup> int) \<Rightarrow> string
     \<Rightarrow> inconsistency list" where
  "check_table_consistency m primary_node secondary_node primary_stats secondary_stats tname =
     (let primary_count = (case primary_stats tname of Some c \<Rightarrow> c | None \<Rightarrow> 0);
          secondary_count = (case secondary_stats tname of Some c \<Rightarrow> c | None \<Rightarrow> 0);
          prows = trows (dbs m primary_node tname);
          srows = trows (dbs m secondary_node tname)
      in if primary_count \<noteq> secondary_count then [CountMismatch tname]
         else
           (if primary_count > 0 \<and> set (latest_records 5 prows) \<noteq> set (latest_records 5 srows)
            then [LatestMismatch tname] else [])
           @ (if id_range prows \<noteq> id_range srows then [IdRangeMismatch tname] else []))"

definition deep_check_data_consistency ::
  "('d, 'j) ha_manager \<Rightarrow> string \<Rightarrow> string \<Rightarrow> (string \<rightharpoonup> int) \<Rightarrow> (string \<rightharpoonup> int)
     \<Rightarrow> inconsistency list" where
  "deep_check_data_consistency m primary_node secondary_node primary_stats secondary_stats =
     concat (map (check_table_consistency m primary_node secondary_node primary_stats secondary_stats)
                 (sync_tables m))"

text \<open>
  \<open>_check_and_sync_data\<close>: the statistics of the primary are taken once, then every
  secondary other than the local node is checked and, when inconsistent, synced.
\<close>

definition check_and_sync_node ::
  "('d \<Rightarrow> string) \<Rightarrow> ('j \<Rightarrow> string) \<Rightarrow> string \<Rightarrow> (string \<rightharpoonup> int) \<Rightarrow> string
     \<Rightarrow> ('d, 'j) ha_manager \<Rightarrow> ('d, 'j) ha_manager" where
  "check_and_sync_node isoformat json_dumps primary primary_stats secondary_node m =
     (let secondary_stats = get_database_stats m secondary_node
      in if deep_check_data_consistency m primary secondary_node primary_stats secondary_stats \<noteq> []
         then snd (sync_bidirectional_data isoformat json_dumps m secondary_node primary_stats secondary_stats)
         else m)"

definition check_and_sync_data ::
  "('d \<Rightarrow> string) \<Rightarrow> ('j \<Rightarrow> string) \<Rightarrow> ('d, 'j) ha_manager \<Rightarrow> ('d, 'j) ha_manager" where
  "check_and_sync_data isoformat json_dumps m =
     (let secondary_nodes = map name (filter (\<lambda>node. role node = SECONDARY \<and> name node \<noteq> local_node_name m)
                                             (nodes m))
      in if secondary_nodes = [] then m
         else case current_primary m of
                None \<Rightarrow> m
              | Some primary \<Rightarrow>
                  fold (check_and_sync_node isoformat json_dumps primary (get_database_stats m primary))
                       secondary_nodes m)"

text \<open>
  One iteration of \<open>_full_sync_loop\<close> at time \<open>current_time\<close>: the pass runs when the
  interval has elapsed and the local node is the current primary.
\<close>

definition full_sync_step ::
  "('d \<Rightarrow> string) \<Rightarrow> ('j \<Rightarrow> string) \<Rightarrow> int \<Rightarrow> ('d, 'j) ha_manager \<Rightarrow> ('d, 'j) ha_manager" where
  "full_sync_step isoformat json_dumps current_time m =
     (if current_time - last_full_sync m \<ge> full_sync_interval m then
        (if current_primary m = Some (local_node_name m)
         then (check_and_sync_data isoformat json_dumps m)\<lparr>last_full_sync := current_time\<rparr>
         else m)
      else m)"


section \<open>The image downloader (\<open>downloader.py\<close>)\<close>

text \<open>
  The download directory as a map from paths to file contents. \<open>decode\<close> stands for
  \<open>PIL.Image.open\<close>: the width and height of the image, or None where it raises.
\<close>

type_synonym bytes = "nat list"


datatype validation_error = FileMissing | FileEmpty | FileTooSmall | ImageTooSmall | ImageInvalid


text \<open>
  What one attempt meets: the outcome of \<open>session.get\<close> and \<open>response.read()\<close>
  (a status with the body, a timeout, or another exception), and whether writing the
  file goes through or raises after some bytes.
\<close>

datatype http_outcome = HttpResponse nat bytes | HttpTimeout | HttpException

datatype write_outcome = WriteCompletes | WriteRaises nat

record attempt_env =
  http :: http_outcome
  disk :: write_outcome

datatype download_error =
    ValidationFailed validation_error | HttpStatus nat | DownloadTimeout | DownloadException

record download_result =
  success :: bool
  file_size :: nat
  width :: nat
  height :: nat
  error :: "download_error option"





section \<open>URL normalisation (\<open>url_parser.py\<close>)\<close>































section \<open>Example states\<close>

text \<open>A three-node cluster: the primary \<open>P\<close> and two secondaries.\<close>

definition node_P :: DatabaseNode where
  "node_P = \<lparr>name = ''P'', role = PRIMARY, priority = 1, failure_threshold = 3,
             last_check = None, last_error = None, health_status = OFFLINE, failure_count = 3\<rparr>"

definition node_S1 :: DatabaseNode where
  "node_S1 = \<lparr>name = ''S1'', role = SECONDARY, priority = 2, failure_threshold = 3,
              last_check = None, last_error = None, health_status = WARNING, failure_count = 2\<rparr>"

definition node_S2 :: DatabaseNode where
  "node_S2 = \<lparr>name = ''S2'', role = SECONDARY, priority = 3, failure_threshold = 3,
              last_check = None, last_error = None, health_status = HEALTHY, failure_count = 0\<rparr>"

definition example_op :: "(nat, unit) SyncOperation" where
  "example_op = \<lparr>operation_id = (0, ''P''), timestamp = 0, operation_type = ''INSERT'',
                 table_name = ''images'', data = [(''id'', PInt 1)], source_node = ''P'',
                 target_nodes = [''S1'', ''S2''], status = ''pending''\<rparr>"

definition empty_table :: "(nat, unit) table" where
  "empty_table = \<lparr>tcolumns = [''id'', ''url'', ''updated_at''], trows = [], tseq = 0\<rparr>"

definition cluster :: "(nat, unit) ha_manager" where
  "cluster = \<lparr>nodes = [node_P, node_S1, node_S2], local_node_name = ''P'',
              current_primary = Some ''P'', sync_queue = [], max_queue_size = 1000,
              sync_tables = [''images'', ''categories''], full_sync_interval = 300,
              last_full_sync = 0, dbs = (\<lambda>_ _. empty_table)\<rparr>"

text \<open>The same cluster with a replication log that already holds 1000 operations.\<close>

definition full_queue_cluster :: "(nat, unit) ha_manager" where
  "full_queue_cluster = cluster\<lparr>sync_queue := replicate 1000 example_op\<rparr>"

text \<open>
  A failover controller over three databases with the default threshold 3, and probe
  results in which the primary \<open>db1\<close> is down or up while the others are reachable.
\<close>

definition controller :: failover_manager where
  "controller = \<lparr>databases = [\<lparr>db_name = ''db1'', db_type = ''primary'', db_priority = 0, is_active = True\<rparr>,
                               \<lparr>db_name = ''db2'', db_type = ''secondary'', db_priority = 2, is_active = True\<rparr>,
                               \<lparr>db_name = ''db3'', db_type = ''secondary'', db_priority = 1, is_active = True\<rparr>],
                  bm_current_primary = Some ''db1'', auto_failover_enabled = True,
                  detection_threshold = 3, current_status = NORMAL, failure_counts = Map.empty,
                  failover_history = [], max_history_size = 100\<rparr>"



definition all_down :: probe_env where
  "all_down = \<lparr>conn = (\<lambda>_. False), tables_ok = (\<lambda>_. True), clock = 0, elapsed = 0\<rparr>"

text \<open>The cluster after both secondaries have gone offline.\<close>

definition isolated_cluster :: "(nat, unit) ha_manager" where
  "isolated_cluster =
     cluster\<lparr>nodes := [node_P, node_S1\<lparr>health_status := OFFLINE\<rparr>, node_S2\<lparr>health_status := OFFLINE\<rparr>]\<rparr>"

text \<open>
  An image instance whose \<open>title\<close> is None, and a stored row of a peer that has a
  title. Datetimes are numbered and containers are opaque in the examples.
\<close>

definition image_columns :: "string list" where
  "image_columns = [''id'', ''url'', ''title'', ''tags'', ''updated_at'']"

definition image_7 :: "(nat, unit) model_instance" where
  "image_7 = \<lparr>tablename = Some ''images'', columns = image_columns,
              attrs = [(''id'', PInt 7), (''url'', PStr ''http://a/b.png''), (''title'', PNone),
                       (''tags'', PContainer ()), (''updated_at'', PDatetime 42)]\<rparr>"

definition peer_row_7 :: "(nat, unit) payload" where
  "peer_row_7 = [(''id'', PInt 7), (''url'', PStr ''http://a/old.png''), (''title'', PStr ''old title'')]"

definition example_isoformat :: "nat \<Rightarrow> string" where
  "example_isoformat d = (if d = 42 then ''2024-01-01T00:00:42'' else ''2024-01-01T00:00:00'')"

definition example_dumps :: "unit \<Rightarrow> string" where
  "example_dumps j = ''[]''"

text \<open>A second image, and a session on the primary in which nothing has happened yet.\<close>

definition image_8 :: "(nat, unit) model_instance" where
  "image_8 = \<lparr>tablename = Some ''images'', columns = image_columns,
              attrs = [(''id'', PInt 8), (''url'', PStr ''http://a/c.png''), (''title'', PNone),
                       (''tags'', PNone), (''updated_at'', PDatetime 43)]\<rparr>"

definition fresh_session :: "(nat, unit) auto_sync_session" where
  "fresh_session = \<lparr>pending_operations = [], session_new = [], session_deleted = []\<rparr>"

text \<open>
  A primary \<open>P\<close> and a secondary \<open>S1\<close> whose \<open>images\<close> tables have drifted apart
  with equal row counts: \<open>P\<close> holds the ids 1, 2 and 5, \<open>S1\<close> holds 1, 2 and 3, and
  the sequence of \<open>S1\<close> stands at 4.
\<close>

definition image_row :: "int \<Rightarrow> nat \<Rightarrow> (nat, unit) payload" where
  "image_row i u = [(''id'', PInt i), (''url'', PStr ''u''), (''updated_at'', PDatetime u)]"

definition drift_dbs :: "string \<Rightarrow> string \<Rightarrow> (nat, unit) table" where
  "drift_dbs node tname =
     (if tname = ''images'' \<and> node = ''P''
      then \<lparr>tcolumns = [''id'', ''url'', ''updated_at''],
            trows = [image_row 1 1, image_row 2 2, image_row 5 5], tseq = 5\<rparr>
      else if tname = ''images'' \<and> node = ''S1''
      then \<lparr>tcolumns = [''id'', ''url'', ''updated_at''],
            trows = [image_row 1 1, image_row 2 2, image_row 3 3], tseq = 4\<rparr>
      else empty_table)"

definition drift_cluster :: "(nat, unit) ha_manager" where
  "drift_cluster =
     \<lparr>nodes = [node_P\<lparr>health_status := HEALTHY, failure_count := 0\<rparr>, node_S1],
      local_node_name = ''P'', current_primary = Some ''P'', sync_queue = [], max_queue_size = 1000,
      sync_tables = [''images''], full_sync_interval = 300, last_full_sync = 0, dbs = drift_dbs\<rparr>"










section \<open>Properties\<close>

subsection \<open>The replication log is not bounded\<close>

lemma add_sync_operation_queue:
  "sync_queue (add_sync_operation t_ms t op_type tname payload m) =
     sync_queue m @ [last (sync_queue (add_sync_operation t_ms t op_type tname payload m))]"
  by (simp add: add_sync_operation_def Let_def)

lemma add_sync_operations_queue:
  "\<exists>new. length new = length ops \<and> sync_queue (add_sync_operations ops m) = sync_queue m @ new"
proof (induction ops arbitrary: m)
  case Nil
  show ?case by simp
next
  case (Cons a ops)
  obtain t_ms t op_type tname payload where a: "a = (t_ms, t, op_type, tname, payload)"
    by (cases a) auto
  let ?m1 = "add_sync_operation t_ms t op_type tname payload m"
  from Cons.IH [of ?m1] obtain new where
    n: "length new = length ops" "sync_queue (add_sync_operations ops ?m1) = sync_queue ?m1 @ new"
    by blast
  obtain x where x: "sync_queue ?m1 = sync_queue m @ [x]"
    using add_sync_operation_queue by blast
  show ?case
    by (rule exI [of _ "x # new"]) (simp add: a n x)
qed

lemma add_sync_operations_max: "max_queue_size (add_sync_operations ops m) = max_queue_size m"
proof (induction ops arbitrary: m)
  case Nil
  show ?case by simp
next
  case (Cons a ops)
  obtain t_ms t op_type tname payload where a: "a = (t_ms, t, op_type, tname, payload)"
    by (cases a) auto
  show ?case by (simp add: a Cons.IH add_sync_operation_def Let_def)
qed

text \<open>
  C3, as amended. \<open>add_sync_operation\<close> appends unconditionally: after any run of
  enqueues the log is the old log followed by one new operation per enqueue, so nothing is
  dropped and the length grows by the number of enqueues, whatever \<open>max_queue_size\<close> is
  (the setting is read from the configuration and never consulted).
\<close>

theorem queue_grows_without_bound:
  "(\<exists>new. length new = length ops \<and> sync_queue (add_sync_operations ops m) = sync_queue m @ new)
   \<and> max_queue_size (add_sync_operations ops m) = max_queue_size m"
  using add_sync_operations_queue [of ops m] add_sync_operations_max [of ops m] by simp

text \<open>
  C3 as stated fails: one enqueue on a log that holds \<open>max_queue_size = 1000\<close> operations
  leaves 1001 operations in it.
\<close>

theorem queue_bound_counterexample:
  "max_queue_size full_queue_cluster
     < int (length (sync_queue (add_sync_operation 1 1 ''INSERT'' ''images'' [(''id'', PInt 2)]
                                  full_queue_cluster)))"
  by (simp add: add_sync_operation_def full_queue_cluster_def cluster_def Let_def)

subsection \<open>Health check of a node\<close>

lemma get_node_update_node:
  "get_node ns k = Some node \<Longrightarrow> (\<And>n. name (f n) = name n) \<Longrightarrow>
   get_node (update_node k f ns) k = Some (f node)"
  by (induction ns) (auto simp: get_node_def update_node_def)

lemma check_node_health_on_name: "name (check_node_health_on ok t node) = name node"
  by (simp add: check_node_health_on_def Let_def)

text \<open>
  C7, as amended. For a registered node, a successful probe resets the failure counter to
  zero and updates the last-check time, and sets the health status to healthy when it was
  offline; any other previous status is kept. A failed probe increments the counter and
  updates the last-check time; when the counter has reached \<open>failure_threshold\<close> the
  status becomes offline, and below the threshold a counter above 1 gives warning.
\<close>

theorem check_node_health_effect:
  assumes "get_node ns k = Some node"
  shows "\<exists>ns' node'. check_node_health probe t k ns = Inr ns' \<and> get_node ns' k = Some node' \<and>
           last_check node' = Some t \<and>
           (probe k \<longrightarrow> failure_count node' = 0 \<and>
              health_status node' = (if health_status node = OFFLINE then HEALTHY else health_status node)) \<and>
           (\<not> probe k \<longrightarrow> failure_count node' = failure_count node + 1 \<and>
              health_status node' =
                (if failure_count node + 1 \<ge> failure_threshold node then OFFLINE
                 else if failure_count node + 1 > 1 then WARNING else health_status node))"
proof -
  let ?node' = "check_node_health_on (probe k) t node"
  have 1: "check_node_health probe t k ns = Inr (update_node k (check_node_health_on (probe k) t) ns)"
    using assms by (simp add: check_node_health_def)
  have 2: "get_node (update_node k (check_node_health_on (probe k) t) ns) k = Some ?node'"
    using assms by (rule get_node_update_node) (rule check_node_health_on_name)
  have 3: "last_check ?node' = Some t"
    by (simp add: check_node_health_on_def Let_def)
  have 4: "probe k \<longrightarrow> failure_count ?node' = 0 \<and>
              health_status ?node' = (if health_status node = OFFLINE then HEALTHY else health_status node)"
    by (simp add: check_node_health_on_def Let_def)
  have 5: "\<not> probe k \<longrightarrow> failure_count ?node' = failure_count node + 1 \<and>
              health_status ?node' =
                (if failure_count node + 1 \<ge> failure_threshold node then OFFLINE
                 else if failure_count node + 1 > 1 then WARNING else health_status node)"
    by (simp add: check_node_health_on_def Let_def)
  from 1 2 3 4 5 show ?thesis by blast
qed

theorem check_node_health_effect_witness:
  "get_node (nodes cluster) ''S1'' = Some node_S1 \<and>
   (\<exists>ns' node'. check_node_health (\<lambda>_. False) 7 ''S1'' (nodes cluster) = Inr ns' \<and>
      get_node ns' ''S1'' = Some node' \<and> last_check node' = Some 7 \<and>
      failure_count node' = 3 \<and> health_status node' = OFFLINE)"
proof -
  have h: "get_node (nodes cluster) ''S1'' = Some node_S1"
    by (simp add: get_node_def cluster_def node_P_def node_S1_def node_S2_def)
  have v: "failure_count node_S1 = 2" "failure_threshold node_S1 = 3"
    by (simp_all add: node_S1_def)
  from check_node_health_effect [OF h, of "\<lambda>_. False" 7] v h show ?thesis
    by simp
qed

text \<open>
  C7 as stated fails: a node whose status is warning stays in warning after a successful
  probe.
\<close>

theorem check_node_health_counterexample:
  "check_node_health (\<lambda>_. True) 7 ''S1'' (nodes cluster)
     = Inr [node_P, node_S1\<lparr>failure_count := 0, last_check := Some 7\<rparr>, node_S2]
   \<and> health_status (node_S1\<lparr>failure_count := 0, last_check := Some 7\<rparr>) = WARNING"
  by (simp add: check_node_health_def check_node_health_on_def get_node_def update_node_def
        cluster_def node_P_def node_S1_def node_S2_def Let_def)

subsection \<open>Selection of the failover target\<close>

lemma sort_key_head_min:
  assumes "sort_key f xs = t # rest"
  shows "t \<in> set xs \<and> (\<forall>c \<in> set xs. f t \<le> f c)"
proof -
  have s: "set (t # rest) = set xs"
    using assms set_sort [of f xs] by simp
  have "sorted (map f (t # rest))"
    using assms sorted_sort_key [of f xs] by simp
  then have "\<forall>c \<in> set rest. f t \<le> f c"
    by simp
  with s show ?thesis by auto
qed

lemma sort_key_Nil_iff: "sort_key f xs = [] \<longleftrightarrow> xs = []"
  using set_sort [of f xs] by (metis set_empty)

lemma get_node_None_iff: "get_node ns k = None \<longleftrightarrow> k \<notin> name ` set ns"
  by (induction ns) (auto simp: get_node_def)

lemma name_update_node: "name ` set (update_node k f ns) = name ` set ns"
  if "\<And>n. name (f n) = name n"
  using that by (induction ns) (auto simp: update_node_def)

lemma execute_failover_primary:
  assumes "t \<in> set (nodes m)"
  shows "current_primary (snd (execute_failover m p (name t))) = Some (name t)"
proof -
  obtain y1 where 1: "get_node (nodes m) (name t) = Some y1"
    using assms get_node_None_iff [of "nodes m" "name t"] by auto
  obtain y2 where 2: "get_node (update_node p (\<lambda>n. n\<lparr>role := SECONDARY\<rparr>) (nodes m)) (name t) = Some y2"
    using assms get_node_None_iff [of "update_node p (\<lambda>n. n\<lparr>role := SECONDARY\<rparr>) (nodes m)" "name t"]
    by (auto simp: name_update_node)
  show ?thesis
    by (simp add: execute_failover_def Let_def 1 2)
qed

lemma attempt_failover_no_candidate:
  assumes "current_primary m = Some p" "available_nodes m p = []"
  shows "attempt_failover m = (Some False, m)"
  using assms by (simp add: attempt_failover_def)

lemma attempt_failover_candidate:
  assumes "current_primary m = Some p" "available_nodes m p \<noteq> []"
  shows "\<exists>t \<in> set (available_nodes m p). (\<forall>c \<in> set (available_nodes m p). priority t \<le> priority c)
            \<and> current_primary (snd (attempt_failover m)) = Some (name t)"
proof -
  obtain t rest where tr: "sort_key priority (available_nodes m p) = t # rest"
    using assms(2) sort_key_Nil_iff [of priority "available_nodes m p"]
    by (cases "sort_key priority (available_nodes m p)") auto
  from sort_key_head_min [OF tr]
  have t: "t \<in> set (available_nodes m p)" "\<forall>c \<in> set (available_nodes m p). priority t \<le> priority c"
    by auto
  from t(1) have "t \<in> set (nodes m)"
    by (simp add: available_nodes_def)
  then have "current_primary (snd (execute_failover m p (name t))) = Some (name t)"
    by (rule execute_failover_primary)
  then have "current_primary (snd (attempt_failover m)) = Some (name t)"
    using assms(1) tr by (simp add: attempt_failover_def case_prod_beta)
  with t show ?thesis by blast
qed

lemma last_record_failover_event:
  "failover_history (record_failover_event ev m) \<noteq> [] \<and>
   last (failover_history (record_failover_event ev m)) = ev"
  by (simp add: record_failover_event_def Let_def)

lemma record_failover_event_others:
  "record_failover_event ev m = m\<lparr>failover_history := failover_history (record_failover_event ev m)\<rparr>"
  by (simp add: record_failover_event_def Let_def)

lemma trigger_no_target:
  assumes "current_status fm = NORMAL" "available_dbs fm env f = []"
  shows "trigger_automatic_failover fm env f r
           = fm\<lparr>failover_history := failover_history (trigger_automatic_failover fm env f r)\<rparr>
         \<and> failover_history (trigger_automatic_failover fm env f r) \<noteq> []
         \<and> ev_status (last (failover_history (trigger_automatic_failover fm env f r))) = FAILED
         \<and> source_db (last (failover_history (trigger_automatic_failover fm env f r))) = f"
proof -
  let ?ev = "\<lparr>ev_timestamp = clock env, source_db = f, target_db = [], reason = r,
              ev_status = FAILED, duration = 0,
              error_message = Some ''no target database available''\<rparr>"
  have "trigger_automatic_failover fm env f r = record_failover_event ?ev fm"
    using assms by (simp add: trigger_automatic_failover_def select_failover_target_def)
  then show ?thesis
    using last_record_failover_event [of ?ev fm] record_failover_event_others [of ?ev fm]
    by simp
qed

lemma get_database_None_iff: "get_database ds k = None \<longleftrightarrow> k \<notin> db_name ` set ds"
  by (induction ds) (auto simp: get_database_def)

lemma trigger_target:
  assumes "current_status fm = NORMAL" "available_dbs fm env f \<noteq> []"
  shows "\<exists>t \<in> set (available_dbs fm env f).
           (\<forall>c \<in> set (available_dbs fm env f). db_priority t \<le> db_priority c)
           \<and> select_failover_target fm env f = Some (db_name t)
           \<and> (tables_ok env (db_name t) \<longrightarrow>
                bm_current_primary (trigger_automatic_failover fm env f r) = Some (db_name t))"
proof -
  obtain t rest where tr: "sort_key db_priority (available_dbs fm env f) = t # rest"
    using assms(2) sort_key_Nil_iff [of db_priority "available_dbs fm env f"]
    by (cases "sort_key db_priority (available_dbs fm env f)") auto
  from sort_key_head_min [OF tr]
  have t: "t \<in> set (available_dbs fm env f)"
    "\<forall>c \<in> set (available_dbs fm env f). db_priority t \<le> db_priority c"
    by auto
  have sel: "select_failover_target fm env f = Some (db_name t)"
    using tr by (simp add: select_failover_target_def)
  from t(1) have c: "conn env (db_name t)"
    by (simp add: available_dbs_def)
  from t(1) obtain y where d: "get_database (databases fm) (db_name t) = Some y"
    using get_database_None_iff [of "databases fm" "db_name t"] by (auto simp: available_dbs_def)
  have "bm_current_primary (trigger_automatic_failover fm env f r) = Some (db_name t)"
    if "tables_ok env (db_name t)"
    using assms(1) sel c d that
    by (simp add: trigger_automatic_failover_def fm_execute_failover_def validate_target_database_def
          failover_to_database_def record_failover_event_def Let_def)
  with t sel show ?thesis by blast
qed

text \<open>
  C5, as amended. In the HA manager (\<open>_attempt_failover\<close>) the candidates are the nodes
  other than the failed primary whose health status is healthy or warning and whose role is
  secondary or standby; the new primary is a candidate of smallest priority, and without a
  candidate the manager's state is left as it was (no role changes; this manager keeps no
  failover events). In the failover controller (\<open>_trigger_automatic_failover\<close>) the
  candidates are the databases other than the failed one that are active and answer the
  connection probe; the selected target is a candidate of smallest priority and becomes
  the primary when its validation passes, and without a candidate only a failover event
  with status failed is appended to the history.
\<close>

theorem failover_target_selection:
  assumes "current_primary m = Some p" and "current_status fm = NORMAL"
  shows "set (available_nodes m p) =
           {c \<in> set (nodes m). name c \<noteq> p \<and> (health_status c = HEALTHY \<or> health_status c = WARNING)
                                \<and> (role c = SECONDARY \<or> role c = STANDBY)}
       \<and> (available_nodes m p = [] \<longrightarrow> attempt_failover m = (Some False, m))
       \<and> (available_nodes m p \<noteq> [] \<longrightarrow>
            (\<exists>t \<in> set (available_nodes m p). (\<forall>c \<in> set (available_nodes m p). priority t \<le> priority c)
               \<and> current_primary (snd (attempt_failover m)) = Some (name t)))
       \<and> set (available_dbs fm env f) =
           {c \<in> set (databases fm). db_name c \<noteq> f \<and> is_active c \<and> conn env (db_name c)}
       \<and> (available_dbs fm env f = [] \<longrightarrow>
            trigger_automatic_failover fm env f r
              = fm\<lparr>failover_history := failover_history (trigger_automatic_failover fm env f r)\<rparr>
            \<and> failover_history (trigger_automatic_failover fm env f r) \<noteq> []
            \<and> ev_status (last (failover_history (trigger_automatic_failover fm env f r))) = FAILED
            \<and> source_db (last (failover_history (trigger_automatic_failover fm env f r))) = f)
       \<and> (available_dbs fm env f \<noteq> [] \<longrightarrow>
            (\<exists>t \<in> set (available_dbs fm env f).
               (\<forall>c \<in> set (available_dbs fm env f). db_priority t \<le> db_priority c)
               \<and> select_failover_target fm env f = Some (db_name t)
               \<and> (tables_ok env (db_name t) \<longrightarrow>
                    bm_current_primary (trigger_automatic_failover fm env f r) = Some (db_name t))))"
proof -
  have 1: "set (available_nodes m p) =
           {c \<in> set (nodes m). name c \<noteq> p \<and> (health_status c = HEALTHY \<or> health_status c = WARNING)
                                \<and> (role c = SECONDARY \<or> role c = STANDBY)}"
    by (auto simp: available_nodes_def is_node_healthy_on_def)
  have 2: "set (available_dbs fm env f) =
           {c \<in> set (databases fm). db_name c \<noteq> f \<and> is_active c \<and> conn env (db_name c)}"
    by (auto simp: available_dbs_def)
  show ?thesis
    using 1 2 attempt_failover_no_candidate [OF assms(1)] attempt_failover_candidate [OF assms(1)]
      trigger_no_target [OF assms(2), of env f r] trigger_target [OF assms(2), of env f r]
    by blast
qed

theorem failover_target_selection_witness:
  "current_primary cluster = Some ''P'' \<and> current_status controller = NORMAL
   \<and> available_nodes cluster ''P'' = [node_S1, node_S2]
   \<and> available_dbs controller all_down ''db1'' = []
   \<and> current_primary (snd (attempt_failover cluster)) = Some ''S1''
   \<and> ev_status (last (failover_history
        (trigger_automatic_failover controller all_down ''db1'' ''probe failures''))) = FAILED"
proof -
  have h1: "current_primary cluster = Some ''P''"
    by (simp add: cluster_def)
  have h2: "current_status controller = NORMAL"
    by (simp add: controller_def)
  have a: "available_nodes cluster ''P'' = [node_S1, node_S2]"
    by (simp add: available_nodes_def is_node_healthy_on_def cluster_def node_P_def node_S1_def node_S2_def)
  have b: "available_dbs controller all_down ''db1'' = []"
    by (simp add: available_dbs_def controller_def all_down_def)
  have p: "priority node_S1 = 2" "priority node_S2 = 3" "name node_S1 = ''S1''"
    by (simp_all add: node_S1_def node_S2_def)
  from failover_target_selection [OF h1 h2, of all_down "''db1''" "''probe failures''"]
  show ?thesis
    using h1 h2 a b p by auto
qed

text \<open>
  C5 as stated fails. With \<open>S1\<close> (priority 2) in status warning and \<open>S2\<close> (priority 3)
  healthy, the HA manager promotes \<open>S1\<close>, which is not healthy. And when no node is a
  candidate, the HA manager returns False with its state unchanged: it records nothing.
\<close>

theorem failover_target_counterexample:
  "current_primary (snd (attempt_failover cluster)) = Some ''S1''
   \<and> get_node (nodes cluster) ''S1'' = Some node_S1 \<and> health_status node_S1 = WARNING
   \<and> get_node (nodes cluster) ''S2'' = Some node_S2 \<and> health_status node_S2 = HEALTHY
   \<and> role node_S2 = SECONDARY
   \<and> attempt_failover isolated_cluster = (Some False, isolated_cluster)"
  by (simp add: attempt_failover_def available_nodes_def is_node_healthy_on_def execute_failover_def
        get_node_def update_node_def isolated_cluster_def cluster_def
        node_P_def node_S1_def node_S2_def Let_def)

subsection \<open>Detection threshold of the failover monitor\<close>








subsection \<open>Serialised payloads carry no NULL column\<close>

lemma serialize_fold_map_of:
  "map_of (fold (\<lambda>c data. let v = getattr kvs c
                           in if v \<noteq> PNone then AList.update c (f v) data else data) cols acc) c =
     (if c \<in> set cols \<and> getattr kvs c \<noteq> PNone then Some (f (getattr kvs c)) else map_of acc c)"
  by (induction cols arbitrary: acc) (auto simp: Let_def update_conv')

lemma serialize_model_map_of:
  "map_of (serialize_model isoformat json_dumps inst) c =
     (if c \<in> set (columns inst) \<and> getattr (attrs inst) c \<noteq> PNone
      then Some (serialize_value isoformat json_dumps (getattr (attrs inst) c)) else None)"
  unfolding serialize_model_def by (simp add: serialize_fold_map_of)

lemma serialize_value_not_None:
  "v \<noteq> PNone \<Longrightarrow> serialize_value isoformat json_dumps v \<noteq> PNone"
  by (cases v) (simp_all add: serialize_value_def)

lemma snd_set_update: "snd ` set (AList.update k v al) \<subseteq> insert v (snd ` set al)"
  by (induction al) auto

lemma serialize_fold_values:
  "PNone \<notin> snd ` set acc \<Longrightarrow> (\<And>v. v \<noteq> PNone \<Longrightarrow> f v \<noteq> PNone) \<Longrightarrow>
   PNone \<notin> snd ` set (fold (\<lambda>c data. let v = getattr kvs c
                           in if v \<noteq> PNone then AList.update c (f v) data else data) cols acc)"
proof (induction cols arbitrary: acc)
  case Nil
  then show ?case by simp
next
  case (Cons c cols)
  let ?v = "getattr kvs c"
  have "PNone \<notin> snd ` set (AList.update c (f ?v) acc)" if "?v \<noteq> PNone"
  proof
    assume "PNone \<in> snd ` set (AList.update c (f ?v) acc)"
    then have "PNone \<in> insert (f ?v) (snd ` set acc)"
      using snd_set_update [of c "f ?v" acc] by blast
    moreover have "f ?v \<noteq> PNone"
      using that by (rule Cons.prems(2))
    ultimately show False
      using Cons.prems(1) by (metis insertE)
  qed
  then have "PNone \<notin> snd ` set (if ?v \<noteq> PNone then AList.update c (f ?v) acc else acc)"
    using Cons.prems(1) by simp
  then show ?case
    using Cons.IH Cons.prems(2) by (simp add: Let_def)
qed

lemma serialize_model_values: "PNone \<notin> snd ` set (serialize_model isoformat json_dumps inst)"
  unfolding serialize_model_def
  by (rule serialize_fold_values) (simp_all add: serialize_value_not_None)

lemma getattr_update: "getattr (AList.update k v r) c = (if c = k then v else getattr r c)"
  by (simp add: getattr_def update_conv')

lemma fold_update_keeps_non_null:
  "PNone \<notin> snd ` set kvs \<Longrightarrow> getattr (fold (\<lambda>(c, v) r'. AList.update c v r') kvs r) c = PNone \<Longrightarrow>
   getattr r c = PNone"
proof (induction kvs arbitrary: r)
  case Nil
  then show ?case by simp
next
  case (Cons kv kvs)
  obtain k v where kv: "kv = (k, v)" by (cases kv)
  from Cons.prems(1) have v: "v \<noteq> PNone" and rest: "PNone \<notin> snd ` set kvs"
    by (auto simp: kv image_iff)
  from Cons.prems(2) have "getattr (fold (\<lambda>(c, v) r'. AList.update c v r') kvs (AList.update k v r)) c = PNone"
    by (simp add: kv)
  from Cons.IH [OF rest this] have "getattr (AList.update k v r) c = PNone" .
  with v show ?case
    by (simp add: getattr_update split: if_splits)
qed

lemma execute_update_keeps_non_null:
  assumes "PNone \<notin> snd ` set record_data" "execute_update_operation record_data rs = Some rs'"
  shows "length rs' = length rs \<and>
         (\<forall>i < length rs. \<forall>c. getattr (rs' ! i) c = PNone \<longrightarrow> getattr (rs ! i) c = PNone)"
proof -
  let ?upd = "filter (\<lambda>(k, v). k \<noteq> ''id'') record_data"
  let ?set = "fold (\<lambda>(c, v) r'. AList.update c v r') ?upd"
  have nn: "PNone \<notin> snd ` set ?upd"
    using assms(1) by (auto simp: image_iff)
  obtain record_id where rid: "map_of record_data ''id'' = Some record_id"
  proof (cases "map_of record_data ''id''")
    case None
    with assms(2) show ?thesis by (simp add: execute_update_operation_def)
  next
    case (Some x)
    with that show ?thesis .
  qed
  show ?thesis
  proof (cases "?upd = []")
    case True
    then have "rs' = rs"
      using assms(2) rid by (simp add: execute_update_operation_def)
    then show ?thesis by simp
  next
    case False
    then have "Some rs' = Some (map (\<lambda>r. if getattr r ''id'' = record_id then ?set r else r) rs)"
      using assms(2) rid unfolding execute_update_operation_def Let_def by simp
    then have rs': "rs' = map (\<lambda>r. if getattr r ''id'' = record_id then ?set r else r) rs"
      by simp
    show ?thesis
    proof (intro conjI allI impI)
      show "length rs' = length rs"
        by (simp add: rs')
    next
      fix i c
      assume i: "i < length rs" and n: "getattr (rs' ! i) c = PNone"
      have el: "rs' ! i = (if getattr (rs ! i) ''id'' = record_id then ?set (rs ! i) else rs ! i)"
        using i unfolding rs' by (rule nth_map)
      show "getattr (rs ! i) c = PNone"
      proof (cases "getattr (rs ! i) ''id'' = record_id")
        case True
        with el n have "getattr (?set (rs ! i)) c = PNone"
          by simp
        with nn show ?thesis
          by (rule fold_update_keeps_non_null)
      next
        case False
        with el n show ?thesis
          by simp
      qed
    qed
  qed
qed

text \<open>
  C10. The payload of \<open>_serialize_model\<close> maps exactly the columns whose value is not
  None, each to its serialised value: the ISO text for a datetime, the JSON text for a dict
  or list, the value itself otherwise. No payload value is None, so a sync-applied UPDATE
  with such a payload leaves NULL only the columns of a peer row that were NULL before.
\<close>

theorem serialize_model_omits_null:
  "map_of (serialize_model isoformat json_dumps inst) c =
     (if c \<in> set (columns inst) \<and> getattr (attrs inst) c \<noteq> PNone
      then Some (serialize_value isoformat json_dumps (getattr (attrs inst) c)) else None)
   \<and> serialize_value isoformat json_dumps (PDatetime d) = PStr (isoformat d)
   \<and> serialize_value isoformat json_dumps (PContainer j) = PStr (json_dumps j)
   \<and> serialize_value isoformat json_dumps (PInt i) = PInt i
   \<and> serialize_value isoformat json_dumps (PStr s) = PStr s
   \<and> serialize_value isoformat json_dumps (PBool b) = PBool b
   \<and> PNone \<notin> snd ` set (serialize_model isoformat json_dumps inst)
   \<and> (execute_update_operation (serialize_model isoformat json_dumps inst) rs = Some rs' \<longrightarrow>
        length rs' = length rs \<and>
        (\<forall>i < length rs. \<forall>c. getattr (rs' ! i) c = PNone \<longrightarrow> getattr (rs ! i) c = PNone))"
  using serialize_model_map_of [of isoformat json_dumps inst c]
    serialize_model_values [of isoformat json_dumps inst]
    execute_update_keeps_non_null [OF serialize_model_values, of isoformat json_dumps inst rs rs']
  by (simp add: serialize_value_def)

theorem serialize_model_omits_null_witness:
  "serialize_model example_isoformat example_dumps image_7 =
     [(''id'', PInt 7), (''url'', PStr ''http://a/b.png''), (''tags'', PStr ''[]''),
      (''updated_at'', PStr ''2024-01-01T00:00:42'')]
   \<and> map_of (serialize_model example_isoformat example_dumps image_7) ''title'' = None
   \<and> execute_update_operation (serialize_model example_isoformat example_dumps image_7) [peer_row_7]
       = Some [[(''id'', PInt 7), (''url'', PStr ''http://a/b.png''), (''title'', PStr ''old title''),
                (''tags'', PStr ''[]''), (''updated_at'', PStr ''2024-01-01T00:00:42'')]]
   \<and> getattr peer_row_7 ''title'' = PStr ''old title''"
proof -
  have s: "serialize_model example_isoformat example_dumps image_7 =
     [(''id'', PInt 7), (''url'', PStr ''http://a/b.png''), (''tags'', PStr ''[]''),
      (''updated_at'', PStr ''2024-01-01T00:00:42'')]"
    by (simp add: serialize_model_def image_7_def image_columns_def getattr_def serialize_value_def
          example_isoformat_def example_dumps_def)
  have u: "execute_update_operation (serialize_model example_isoformat example_dumps image_7) [peer_row_7]
       = Some [[(''id'', PInt 7), (''url'', PStr ''http://a/b.png''), (''title'', PStr ''old title''),
                (''tags'', PStr ''[]''), (''updated_at'', PStr ''2024-01-01T00:00:42'')]]"
    by (simp add: s execute_update_operation_def peer_row_7_def getattr_def)
  from serialize_model_omits_null [of example_isoformat example_dumps image_7 "''title''" _ _ _ _ _
      "[peer_row_7]" "[[(''id'', PInt 7), (''url'', PStr ''http://a/b.png''), (''title'', PStr ''old title''),
                (''tags'', PStr ''[]''), (''updated_at'', PStr ''2024-01-01T00:00:42'')]]"]
  show ?thesis
    using s u by (simp add: image_7_def getattr_def image_columns_def peer_row_7_def)
qed

subsection \<open>A failed commit keeps the pending operations\<close>

text \<open>
  C4 at a failing input. When the local commit raises, \<open>commit\<close> rolls the wrapped
  session back and raises the same exception, but the pending list is not cleared (it is
  cleared only at the end of \<open>_process_pending_sync_operations\<close>, which is not reached).
  Here the commit of \<open>image_7\<close> fails; the session then adds \<open>image_8\<close> and commits
  successfully, and the INSERT of \<open>image_7\<close> is appended to the replication log
  together with the one of \<open>image_8\<close>.
\<close>

theorem failed_commit_keeps_pending:
  "session_commit isoformat json_dumps t_ms t (Some e) (s, m) = (Some e, session_rollback s, m)
   \<and> pending_operations (session_rollback s) = pending_operations s
   \<and> session_commit example_isoformat example_dumps 1 1 (Some ''IntegrityError'')
        (session_add image_7 fresh_session, cluster)
      = (Some ''IntegrityError'',
         \<lparr>pending_operations = [\<lparr>p_type = ''INSERT'', p_table = ''images'', p_instance = image_7\<rparr>],
          session_new = [], session_deleted = []\<rparr>,
         cluster)
   \<and> map (\<lambda>operation. (operation_type operation, data operation))
          (sync_queue (snd (snd (session_commit example_isoformat example_dumps 2 2 (None :: string option)
             (session_add image_8
                \<lparr>pending_operations = [\<lparr>p_type = ''INSERT'', p_table = ''images'', p_instance = image_7\<rparr>],
                 session_new = [], session_deleted = []\<rparr>,
              cluster)))))
      = [(''INSERT'', [(''id'', PInt 7), (''url'', PStr ''http://a/b.png''), (''tags'', PStr ''[]''),
                       (''updated_at'', PStr ''2024-01-01T00:00:42'')]),
         (''INSERT'', [(''id'', PInt 8), (''url'', PStr ''http://a/c.png''),
                       (''updated_at'', PStr ''2024-01-01T00:00:00'')])]"
proof -
  have s7: "serialize_model example_isoformat example_dumps image_7 =
     [(''id'', PInt 7), (''url'', PStr ''http://a/b.png''), (''tags'', PStr ''[]''),
      (''updated_at'', PStr ''2024-01-01T00:00:42'')]"
    by (simp add: serialize_model_def image_7_def image_columns_def getattr_def serialize_value_def
          example_isoformat_def example_dumps_def)
  have s8: "serialize_model example_isoformat example_dumps image_8 =
     [(''id'', PInt 8), (''url'', PStr ''http://a/c.png''), (''updated_at'', PStr ''2024-01-01T00:00:00'')]"
    by (simp add: serialize_model_def image_8_def image_columns_def getattr_def serialize_value_def
          example_isoformat_def example_dumps_def)
  have t7: "tablename image_7 = Some ''images''" and t8: "tablename image_8 = Some ''images''"
    by (simp_all add: image_7_def image_8_def)
  have q: "sync_queue cluster = []"
    by (simp add: cluster_def)
  have 1: "session_commit isoformat json_dumps t_ms t (Some e) (s, m) = (Some e, session_rollback s, m)"
    by (simp add: session_commit_def)
  have 2: "pending_operations (session_rollback s) = pending_operations s"
    by (simp add: session_rollback_def)
  have 3: "session_commit example_isoformat example_dumps 1 1 (Some ''IntegrityError'')
        (session_add image_7 fresh_session, cluster)
      = (Some ''IntegrityError'',
         \<lparr>pending_operations = [\<lparr>p_type = ''INSERT'', p_table = ''images'', p_instance = image_7\<rparr>],
          session_new = [], session_deleted = []\<rparr>,
         cluster)"
    by (simp add: session_commit_def session_add_def session_rollback_def fresh_session_def t7)
  have 4: "map (\<lambda>operation. (operation_type operation, data operation))
          (sync_queue (snd (snd (session_commit example_isoformat example_dumps 2 2 (None :: string option)
             (session_add image_8
                \<lparr>pending_operations = [\<lparr>p_type = ''INSERT'', p_table = ''images'', p_instance = image_7\<rparr>],
                 session_new = [], session_deleted = []\<rparr>,
              cluster)))))
      = [(''INSERT'', [(''id'', PInt 7), (''url'', PStr ''http://a/b.png''), (''tags'', PStr ''[]''),
                       (''updated_at'', PStr ''2024-01-01T00:00:42'')]),
         (''INSERT'', [(''id'', PInt 8), (''url'', PStr ''http://a/c.png''),
                       (''updated_at'', PStr ''2024-01-01T00:00:00'')])]"
    by (simp add: session_commit_def session_add_def t8 process_pending_operation_def
          add_sync_operation_def s7 s8 q Let_def)
  from 1 2 3 4 show ?thesis by blast
qed

subsection \<open>Rows, keys and upserts\<close>

lemma coalesce_max_id_Max:
  "coalesce_max_id rs = (if rs = [] then 0 else Max (row_id ` set rs))"
proof (cases rs)
  case Nil
  then show ?thesis by (simp add: coalesce_max_id_def)
next
  case (Cons r rest)
  have "fold max (map row_id rest) (row_id r) = Max (set (row_id r # map row_id rest))"
    by (simp only: Max.set_eq_fold)
  then show ?thesis
    by (simp add: coalesce_max_id_def Cons)
qed


lemma map_of_fold_update_other:
  "k \<notin> fst ` set kvs \<Longrightarrow> map_of (fold (\<lambda>(c, v) r'. AList.update c v r') kvs r) k = map_of r k"
  by (induction kvs arbitrary: r) (auto simp: update_conv')

lemma row_id_set_columns: "row_id (set_columns record_data r) = row_id r"
proof -
  have "''id'' \<notin> fst ` set (filter (\<lambda>(c, v). c \<noteq> ''id'') record_data)"
    by auto
  then have "map_of (set_columns record_data r) ''id'' = map_of r ''id''"
    unfolding set_columns_def by (rule map_of_fold_update_other)
  then show ?thesis
    by (simp add: row_id_def)
qed






lemma trows_update_sequence: "trows (update_sequence_after_sync t) = trows t"
  by (simp add: update_sequence_after_sync_def Let_def)




subsection \<open>Direction of the full reconciliation\<close>




















subsection \<open>Sequences after a copy\<close>

text \<open>
  The two paths that C2 names do what it says. The bulk copy sets the sequence to
  \<open>max(id) + 1\<close> when at least one record was synced (and the maximal id is positive).
\<close>

lemma copy_records_sequence:
  assumes "recs \<noteq> []"
    and "0 < coalesce_max_id (trows (snd (copy_records isoformat json_dumps tname cols recs t)))"
  shows "tseq (snd (copy_records isoformat json_dumps tname cols recs t)) =
           coalesce_max_id (trows (snd (copy_records isoformat json_dumps tname cols recs t))) + 1"
proof -
  let ?t1 = "fold (\<lambda>r t. insert_on_conflict_update
                      (serialize_model isoformat json_dumps (load_instance tname cols r)) t) recs t"
  have c: "snd (copy_records isoformat json_dumps tname cols recs t) = update_sequence_after_sync ?t1"
    using assms(1) by (simp add: copy_records_def Let_def)
  have "0 < coalesce_max_id (trows ?t1)"
    using assms(2) by (simp add: c trows_update_sequence)
  then show ?thesis
    by (simp add: c update_sequence_after_sync_def Let_def)
qed

lemma max_id_after_insert:
  assumes "map_of record_data ''id'' = Some (PInt i)"
  shows "coalesce_max_id (trows (insert_on_conflict_update record_data t)) \<le> max (coalesce_max_id (trows t)) i"
proof (cases "i \<in> set (map row_id (trows t))")
  case True
  let ?f = "\<lambda>r. if row_id r = i then set_columns record_data r else r"
  have "map row_id (map ?f (trows t)) = map row_id (trows t)"
    by (simp add: row_id_set_columns)
  then have "row_id ` set (map ?f (trows t)) = row_id ` set (trows t)"
    by (metis set_map)
  then have "coalesce_max_id (map ?f (trows t)) = coalesce_max_id (trows t)"
    by (simp add: coalesce_max_id_Max)
  then show ?thesis
    using assms True by (simp add: insert_on_conflict_update_def)
next
  case False
  have r: "row_id record_data = i"
    using assms by (simp add: row_id_def)
  have "coalesce_max_id (trows t @ [record_data]) \<le> max (coalesce_max_id (trows t)) i"
    by (cases "trows t = []") (simp_all add: coalesce_max_id_Max r)
  then show ?thesis
    using assms False by (simp add: insert_on_conflict_update_def)
qed

text \<open>
  The apply path of an INSERT operation moves the sequence past the inserted id, and
  keeps the sequence above the maximal id if it was above it before.
\<close>

lemma execute_insert_operation_sequence:
  assumes "map_of record_data ''id'' = Some (PInt i)" and "coalesce_max_id (trows t) + 1 \<le> tseq t"
  shows "i + 1 \<le> tseq (execute_insert_operation record_data t) \<and>
         coalesce_max_id (trows (execute_insert_operation record_data t)) + 1
           \<le> tseq (execute_insert_operation record_data t)"
proof -
  let ?t1 = "insert_on_conflict_update record_data t"
  have e: "execute_insert_operation record_data t = sync_sequence_for_insert ?t1 i"
    using assms(1) by (simp add: execute_insert_operation_def)
  have s1: "tseq ?t1 = tseq t"
    using assms(1) by (simp add: insert_on_conflict_update_def)
  have m1: "coalesce_max_id (trows ?t1) \<le> max (coalesce_max_id (trows t)) i"
    using assms(1) by (rule max_id_after_insert)
  have r: "trows (sync_sequence_for_insert ?t1 i) = trows ?t1"
    by (simp add: sync_sequence_for_insert_def Let_def)
  have q: "tseq (sync_sequence_for_insert ?t1 i) = (if i \<ge> tseq t then i + 1 else tseq t)"
    by (simp add: sync_sequence_for_insert_def Let_def s1)
  show ?thesis
    unfolding e r q using m1 assms(2) by auto
qed

text \<open>
  C2 at a failing input. The content sync of the full reconciliation upserts the primary's
  record through \<open>_sync_single_record\<close>, which never touches the sequence. The
  secondary \<open>S1\<close> starts with the ids 1, 2, 3 and the sequence at 4; the pass inserts
  the primary's row 5 and leaves the sequence at 4, below \<open>max(id) + 1 = 6\<close>.
\<close>

theorem content_sync_leaves_sequence_behind:
  "coalesce_max_id (trows (dbs drift_cluster ''S1'' ''images'')) + 1 \<le> tseq (dbs drift_cluster ''S1'' ''images'')
   \<and> get_database_stats drift_cluster ''P'' ''images'' = Some 3
   \<and> get_database_stats drift_cluster ''S1'' ''images'' = Some 3
   \<and> different_ids (trows (dbs drift_cluster ''P'' ''images'')) (trows (dbs drift_cluster ''S1'' ''images''))
        = [PInt 5]
   \<and> map row_id (trows (dbs (full_sync_step example_isoformat example_dumps 300 drift_cluster)
                           ''S1'' ''images'')) = [1, 2, 3, 5]
   \<and> tseq (dbs (full_sync_step example_isoformat example_dumps 300 drift_cluster) ''S1'' ''images'') = 4
   \<and> coalesce_max_id (trows (dbs (full_sync_step example_isoformat example_dumps 300 drift_cluster)
                                 ''S1'' ''images'')) + 1 = 6"
  by code_simp

subsection \<open>The downloader writes to the final path and removes what fails validation\<close>






subsection \<open>Normalising a URL twice\<close>


























end
